theory Spec2Isabelle
  imports Main "HOL-Library.Sublist"
begin

section \<open>Hotel management system: rooms, the store and its backing file\<close>

text \<open>
  A shallow embedding of \<^verbatim>\<open>hotel_management_system.py\<close>.

  Conventions of the model.
  \<^item> A Python \<^verbatim>\<open>str\<close> is a \<open>string\<close>; a \<open>char\<close> stands for a code point below 256.
  \<^item> The file system is a map from file names to text. Opening an existing file for
    reading and opening any file for writing succeed; opening an absent file for
    reading raises \<^verbatim>\<open>FileNotFoundError\<close>. Line endings are those of POSIX: writing
    stores \<^verbatim>\<open>\n\<close> as it is, reading in text mode turns \<^verbatim>\<open>\r\n\<close> and \<^verbatim>\<open>\r\<close> into \<^verbatim>\<open>\n\<close>.
  \<^item> Every method of \<^verbatim>\<open>HotelManagementSystem\<close> takes the state of the object and of
    the file system and returns the new one; \<^verbatim>\<open>print\<close> appends a line to \<open>printed\<close>, and
    \<open>writes\<close> counts how often a file has been opened for writing.
\<close>

subsection \<open>Room\<close>

record room =
  room_number :: string
  features :: "string list"
  is_allocated :: bool
  customer_name :: string

text \<open>\<^verbatim>\<open>Room.__init__\<close>: a new room is unallocated and has no customer.\<close>

definition Room :: "string \<Rightarrow> string list \<Rightarrow> room" where
  "Room number feats =
     \<lparr>room_number = number, features = feats, is_allocated = False, customer_name = ''''\<rparr>"

subsection \<open>Python string operations\<close>

definition LF :: char where
  "LF = CHR 0x0A"

definition CR :: char where
  "CR = CHR 0x0D"

text \<open>\<^verbatim>\<open>str.isspace\<close> for one code point below 256.\<close>

definition is_space :: "char \<Rightarrow> bool" where
  "is_space c =
     (c \<in> {CHR 0x09, CHR 0x0A, CHR 0x0B, CHR 0x0C, CHR 0x0D,
            CHR 0x1C, CHR 0x1D, CHR 0x1E, CHR 0x1F, CHR 0x20, CHR 0x85, CHR 0xA0})"

text \<open>\<^verbatim>\<open>s.strip()\<close>: leading and trailing whitespace removed.\<close>

definition strip :: "string \<Rightarrow> string" where
  "strip s = rev (dropWhile is_space (rev (dropWhile is_space s)))"

text \<open>\<^verbatim>\<open>s.split(sep)\<close> for a separator of one character; the result is never empty.\<close>

fun split_py :: "char \<Rightarrow> string \<Rightarrow> string list" where
  "split_py sep [] = [[]]"
| "split_py sep (c # cs) =
     (if c = sep then [] # split_py sep cs
      else (case split_py sep cs of
              [] \<Rightarrow> [[c]]
            | w # ws \<Rightarrow> (c # w) # ws))"

text \<open>\<^verbatim>\<open>sep.join(xs)\<close>.\<close>

fun join :: "string \<Rightarrow> string list \<Rightarrow> string" where
  "join sep [] = []"
| "join sep [x] = x"
| "join sep (x # y # ys) = x @ sep @ join sep (y # ys)"

text \<open>\<^verbatim>\<open>str(b)\<close> for a bool, as an f-string renders it.\<close>

definition str_bool :: "bool \<Rightarrow> string" where
  "str_bool b = (if b then ''True'' else ''False'')"

subsection \<open>Text files\<close>

text \<open>Reading in text mode with universal newlines.\<close>

fun universal_newlines :: "string \<Rightarrow> string" where
  "universal_newlines [] = []"
| "universal_newlines [c] = (if c = CR then [LF] else [c])"
| "universal_newlines (c # d # cs) =
     (if c = CR \<and> d = LF then LF # universal_newlines cs
      else if c = CR then LF # universal_newlines (d # cs)
      else c # universal_newlines (d # cs))"

text \<open>
  \<^verbatim>\<open>file.readlines()\<close> on text already read: the lines with their terminators; \<open>cur\<close>
  is the line being collected.
\<close>

fun readlines_from :: "string \<Rightarrow> string \<Rightarrow> string list" where
  "readlines_from cur [] = (if cur = [] then [] else [cur])"
| "readlines_from cur (c # cs) =
     (if c = LF then (cur @ [c]) # readlines_from [] cs
      else readlines_from (cur @ [c]) cs)"

definition readlines :: "string \<Rightarrow> string list" where
  "readlines text = readlines_from [] text"

subsection \<open>The store\<close>

record hms =
  rooms :: "room list"
  files :: "string \<rightharpoonup> string"
  writes :: nat
  printed :: "string list"

definition file_name :: string where
  "file_name = ''LHMS_764708175.txt''"

definition print :: "string \<Rightarrow> hms \<Rightarrow> hms" where
  "print msg s = s\<lparr>printed := printed s @ [msg]\<rparr>"

text \<open>\<^verbatim>\<open>with open(name, "w") as f: f.write(text)\<close>.\<close>

definition write_file :: "string \<Rightarrow> string \<Rightarrow> hms \<Rightarrow> hms" where
  "write_file name text s = s\<lparr>files := (files s)(name \<mapsto> text), writes := Suc (writes s)\<rparr>"

text \<open>The text of \<^verbatim>\<open>FileNotFoundError\<close> for the backing file.\<close>

definition no_such_file :: string where
  "no_such_file =
     ''[Errno 2] No such file or directory: '' @ [CHR 0x27] @ file_name @ [CHR 0x27]"

text \<open>\<^verbatim>\<open>ensure_file_exists\<close>.\<close>

definition ensure_file_exists :: "hms \<Rightarrow> hms" where
  "ensure_file_exists s =
     (if files s file_name = None then write_file file_name '''' s else s)"

subsection \<open>Persistence\<close>

text \<open>The line \<^verbatim>\<open>save_data\<close> writes for one room.\<close>

definition room_line :: "room \<Rightarrow> string" where
  "room_line r =
     room_number r @ ''|'' @ join '','' (features r) @ ''|'' @ str_bool (is_allocated r)
       @ ''|'' @ customer_name r @ [LF]"

text \<open>\<^verbatim>\<open>save_data\<close>: the file is rewritten from the rooms in memory.\<close>

definition save_data :: "hms \<Rightarrow> hms" where
  "save_data s = write_file file_name (concat (map room_line (rooms s))) s"

text \<open>
  The body of the loop of \<^verbatim>\<open>load_data\<close> for one line: \<open>None\<close> is the \<^verbatim>\<open>IndexError\<close> of
  \<^verbatim>\<open>parts[1]\<close>, \<^verbatim>\<open>parts[2]\<close> or \<^verbatim>\<open>parts[3]\<close>, raised before the room is appended.
\<close>

definition parse_line :: "string \<Rightarrow> room option" where
  "parse_line line =
     (case split_py (CHR ''|'') (strip line) of
        p0 # p1 # p2 # p3 # _ \<Rightarrow>
          Some ((Room p0 (split_py (CHR '','') p1))
                  \<lparr>is_allocated := (p2 = ''True''), customer_name := p3\<rparr>)
      | _ \<Rightarrow> None)"

text \<open>
  The loop of \<^verbatim>\<open>load_data\<close> over the lines: the rooms so far, and whether an
  \<^verbatim>\<open>IndexError\<close> ended the loop.
\<close>

fun load_lines :: "room list \<Rightarrow> string list \<Rightarrow> room list \<times> bool" where
  "load_lines rs [] = (rs, False)"
| "load_lines rs (l # ls) =
     (case parse_line l of
        None \<Rightarrow> (rs, True)
      | Some r \<Rightarrow> load_lines (rs @ [r]) ls)"

definition load_data :: "hms \<Rightarrow> hms" where
  "load_data s =
     (case files s file_name of
        None \<Rightarrow> print (''FileNotFoundError caught: '' @ no_such_file) s
      | Some text \<Rightarrow>
          (case load_lines (rooms s) (readlines (universal_newlines text)) of
             (rs, failed) \<Rightarrow>
               (if failed
                then print ''IndexError caught: list index out of range'' (s\<lparr>rooms := rs\<rparr>)
                else s\<lparr>rooms := rs\<rparr>)))"

text \<open>\<^verbatim>\<open>HotelManagementSystem.__init__\<close> on a given file system.\<close>

definition hms_init :: "(string \<rightharpoonup> string) \<Rightarrow> hms" where
  "hms_init fsys =
     load_data (ensure_file_exists \<lparr>rooms = [], files = fsys, writes = 0, printed = []\<rparr>)"

subsection \<open>Mutation operations\<close>

text \<open>
  What the caller passes as \<^verbatim>\<open>features\<close>: any value; the elements of a list are any
  values too.
\<close>

datatype pyval = PyStr string | PyInt int | PyNone | PyList "pyval list"

text \<open>\<^verbatim>\<open>type(v).__name__\<close>.\<close>

fun type_name :: "pyval \<Rightarrow> string" where
  "type_name (PyStr x) = ''str''"
| "type_name (PyInt i) = ''int''"
| "type_name PyNone = ''NoneType''"
| "type_name (PyList vs) = ''list''"

text \<open>\<^verbatim>\<open>str(n)\<close> for a natural number.\<close>

fun str_nat :: "nat \<Rightarrow> string" where
  "str_nat n =
     (if n < 10 then [''0123456789'' ! n]
      else str_nat (n div 10) @ [''0123456789'' ! (n mod 10)])"

declare str_nat.simps [simp del]

text \<open>
  The check \<^verbatim>\<open>','.join\<close> makes of its items, from item \<open>i\<close> on: the items as strings, or
  the text of the \<^verbatim>\<open>TypeError\<close> for the first item that is not a string.
\<close>

fun join_items :: "nat \<Rightarrow> pyval list \<Rightarrow> string + string list" where
  "join_items i [] = Inr []"
| "join_items i (PyStr x # vs) =
     (case join_items (Suc i) vs of Inl e \<Rightarrow> Inl e | Inr xs \<Rightarrow> Inr (x # xs))"
| "join_items i (v # vs) =
     Inl (''sequence item '' @ str_nat i @ '': expected str instance, '' @ type_name v
            @ '' found'')"

text \<open>
  The object after \<^verbatim>\<open>add_room\<close>. A list of strings keeps it among the stores of this
  model, whose rooms have strings as features. A list that holds another value is appended
  to \<^verbatim>\<open>self.rooms\<close> all the same, as the features of a new last room: \<open>unsaved\<close> is that room,
  its number and its features, and the rooms before it are those of \<open>store\<close>. No later
  call is modelled on such an object.
\<close>

record added =
  store :: hms
  unsaved :: "(string \<times> pyval list) option"

text \<open>
  \<^verbatim>\<open>add_room\<close>. When the new room has a feature that is not a string, \<^verbatim>\<open>save_data\<close> has
  opened the file and written the lines of the rooms before it when \<^verbatim>\<open>join\<close> raises the
  \<^verbatim>\<open>TypeError\<close>; \<^verbatim>\<open>save_data\<close> does not catch it, \<^verbatim>\<open>add_room\<close> does.
\<close>

definition add_room :: "string \<Rightarrow> pyval \<Rightarrow> hms \<Rightarrow> added" where
  "add_room number feats s =
     (case feats of
        PyList vs \<Rightarrow>
          (case join_items 0 vs of
             Inr fl \<Rightarrow>
               \<lparr>store = print (''Room '' @ number @ '' is successfully added.'')
                          (save_data (s\<lparr>rooms := rooms s @ [Room number fl]\<rparr>)),
                unsaved = None\<rparr>
           | Inl e \<Rightarrow>
               \<lparr>store = print (''TypeError caught: '' @ e)
                          (write_file file_name (concat (map room_line (rooms s))) s),
                unsaved = Some (number, vs)\<rparr>)
      | _ \<Rightarrow>
          \<lparr>store = print ''TypeError caught: Features should be a list.'' s, unsaved = None\<rparr>)"

text \<open>\<^verbatim>\<open>delete_room\<close>.\<close>

definition delete_room :: "string \<Rightarrow> hms \<Rightarrow> hms" where
  "delete_room number s =
     print (''Room '' @ number @ '' is successfully deleted.'')
       (save_data (s\<lparr>rooms := filter (\<lambda>r. room_number r \<noteq> number) (rooms s)\<rparr>))"

text \<open>
  The loop of \<^verbatim>\<open>allocate_room\<close>: it returns at the first room with the number, having
  allocated it if it was free.
\<close>

datatype alloc_result = Allocated | AlreadyAllocated | RoomNotFound

fun allocate_loop :: "string \<Rightarrow> string \<Rightarrow> room list \<Rightarrow> room list \<times> alloc_result" where
  "allocate_loop number name [] = ([], RoomNotFound)"
| "allocate_loop number name (r # rs) =
     (if room_number r = number then
        (if \<not> is_allocated r
         then (r\<lparr>is_allocated := True, customer_name := name\<rparr> # rs, Allocated)
         else (r # rs, AlreadyAllocated))
      else (case allocate_loop number name rs of (rs', res) \<Rightarrow> (r # rs', res)))"

definition allocate_room :: "string \<Rightarrow> string \<Rightarrow> hms \<Rightarrow> hms" where
  "allocate_room number name s =
     (case allocate_loop number name (rooms s) of
        (rs, Allocated) \<Rightarrow>
          save_data (print (''Room '' @ number @ '' allocated to '' @ name @ ''.'')
                       (s\<lparr>rooms := rs\<rparr>))
      | (rs, AlreadyAllocated) \<Rightarrow> print (''Room '' @ number @ '' is already allocated.'') s
      | (rs, RoomNotFound) \<Rightarrow> print (''Room '' @ number @ '' not found.'') s)"

text \<open>
  The loop of \<^verbatim>\<open>bill_and_deallocate\<close>: the customer billed and the rooms after the
  first allocated room with the number has been freed, or \<open>None\<close> when there is none.
\<close>

fun bill_loop :: "string \<Rightarrow> room list \<Rightarrow> (string \<times> room list) option" where
  "bill_loop number [] = None"
| "bill_loop number (r # rs) =
     (if room_number r = number \<and> is_allocated r
      then Some (customer_name r, r\<lparr>is_allocated := False, customer_name := ''''\<rparr> # rs)
      else (case bill_loop number rs of
              None \<Rightarrow> None
            | Some (c, rs') \<Rightarrow> Some (c, r # rs')))"

definition bill_and_deallocate :: "string \<Rightarrow> hms \<Rightarrow> hms" where
  "bill_and_deallocate number s =
     (case bill_loop number (rooms s) of
        Some (c, rs) \<Rightarrow>
          print (''Room '' @ number @ '' is de-allocated for the customer.'')
            (save_data (print (''Billing customer '' @ c @ '' for Room '' @ number @ ''.'')
                          (s\<lparr>rooms := rs\<rparr>)))
      | None \<Rightarrow> print (''Room '' @ number @ '' not found or not allocated.'') s)"




subsection \<open>Sequences of calls\<close>

datatype call = AllocateRoom string string | BillAndDeallocate string

fun run_call :: "call \<Rightarrow> hms \<Rightarrow> hms" where
  "run_call (AllocateRoom number name) s = allocate_room number name s"
| "run_call (BillAndDeallocate number) s = bill_and_deallocate number s"

fun run_calls :: "call list \<Rightarrow> hms \<Rightarrow> hms" where
  "run_calls [] s = s"
| "run_calls (c # cs) s = run_calls cs (run_call c s)"

subsection \<open>Predicates of the specification\<close>

text \<open>The invariant the specification states for a room.\<close>

definition room_invariant :: "room \<Rightarrow> bool" where
  "room_invariant r =
     ((is_allocated r \<longrightarrow> customer_name r \<noteq> '''') \<and> (\<not> is_allocated r \<longrightarrow> customer_name r = ''''))"

text \<open>A call that allocates names a customer.\<close>

fun names_customer :: "call \<Rightarrow> bool" where
  "names_customer (AllocateRoom number name) = (name \<noteq> '''')"
| "names_customer (BillAndDeallocate number) = True"

text \<open>The number of fields \<^verbatim>\<open>load_data\<close> finds in a line.\<close>

definition num_fields :: "string \<Rightarrow> nat" where
  "num_fields line = length (split_py (CHR ''|'') (strip line))"

text \<open>
  The record of a room as the specification gives the file format: the room number, the
  features separated by commas, \<^verbatim>\<open>True\<close> or \<^verbatim>\<open>False\<close>, and the customer name, separated by
  \<^verbatim>\<open>|\<close> and ended by a newline.
\<close>

fun separated :: "char \<Rightarrow> string list \<Rightarrow> string" where
  "separated c [] = []"
| "separated c [x] = x"
| "separated c (x # y # ys) = x @ c # separated c (y # ys)"

definition spec_record :: "room \<Rightarrow> string" where
  "spec_record r =
     separated (CHR ''|'')
       [room_number r, separated (CHR '','') (features r),
        (if is_allocated r then ''True'' else ''False''), customer_name r]
     @ [CHR 0x0A]"

text \<open>No delimiter character in a string, and in the strings of a room.\<close>

definition no_delimiters :: "string \<Rightarrow> bool" where
  "no_delimiters x = (CHR ''|'' \<notin> set x \<and> CHR '','' \<notin> set x)"

definition fields_no_delimiters :: "room \<Rightarrow> bool" where
  "fields_no_delimiters r =
     (no_delimiters (room_number r) \<and> list_all no_delimiters (features r)
      \<and> no_delimiters (customer_name r))"

definition no_line_break :: "string \<Rightarrow> bool" where
  "no_line_break x = (LF \<notin> set x \<and> CR \<notin> set x)"

definition no_space_at_start :: "string \<Rightarrow> bool" where
  "no_space_at_start x = (case x of [] \<Rightarrow> True | c # _ \<Rightarrow> \<not> is_space c)"

text \<open>
  The rooms that survive saving and loading: no delimiter and no line break in any
  string, at least one feature, no whitespace at the start of the room number nor at the
  end of the customer name.
\<close>

definition reloadable :: "room \<Rightarrow> bool" where
  "reloadable r =
     (fields_no_delimiters r \<and> features r \<noteq> []
      \<and> no_line_break (room_number r) \<and> list_all no_line_break (features r)
      \<and> no_line_break (customer_name r)
      \<and> no_space_at_start (room_number r) \<and> no_space_at_start (rev (customer_name r)))"

subsection \<open>Example stores\<close>

text \<open>A store whose backing file holds the records of its rooms.\<close>

definition hotel :: "room list \<Rightarrow> hms" where
  "hotel rs =
     \<lparr>rooms = rs, files = [file_name \<mapsto> concat (map room_line rs)], writes = 0, printed = []\<rparr>"

definition room_101 :: room where
  "room_101 = Room ''101'' [''wifi'', ''ac'']"

definition alice_101 :: room where
  "alice_101 = room_101\<lparr>is_allocated := True, customer_name := ''Alice''\<rparr>"

definition room_12A :: room where
  "room_12A = Room ''12A'' [''wifi'', ''ac'']"

text \<open>A backing file whose second line has one field only.\<close>

definition broken_file :: string where
  "broken_file =
     ''101|wifi|False|'' @ [LF] @ ''102'' @ [LF] @ ''103|tv|True|Bob'' @ [LF]"

section \<open>Basic facts\<close>

lemmas example_defs =
  hotel_def room_101_def alice_101_def room_12A_def Room_def room_line_def str_bool_def
  LF_def CR_def file_name_def

lemma print_fields [simp]:
  "rooms (print m s) = rooms s" "files (print m s) = files s"
  "writes (print m s) = writes s" "printed (print m s) = printed s @ [m]"
  by (simp_all add: print_def)

lemma write_file_fields [simp]:
  "rooms (write_file f t s) = rooms s" "files (write_file f t s) = (files s)(f \<mapsto> t)"
  "writes (write_file f t s) = Suc (writes s)" "printed (write_file f t s) = printed s"
  by (simp_all add: write_file_def)

lemma save_data_fields [simp]:
  "rooms (save_data s) = rooms s"
  "files (save_data s) = (files s)(file_name \<mapsto> concat (map room_line (rooms s)))"
  "writes (save_data s) = Suc (writes s)" "printed (save_data s) = printed s"
  by (simp_all add: save_data_def)

lemma delete_room_fields:
  "rooms (delete_room n s) = filter (\<lambda>r. room_number r \<noteq> n) (rooms s)"
  "files (delete_room n s) =
     (files s)(file_name \<mapsto> concat (map room_line (filter (\<lambda>r. room_number r \<noteq> n) (rooms s))))"
  "writes (delete_room n s) = Suc (writes s)"
  "printed (delete_room n s) = printed s @ [''Room '' @ n @ '' is successfully deleted.'']"
  by (simp_all add: delete_room_def)

lemma bill_loop_None:
  "(\<forall>r \<in> set rs. \<not> (room_number r = n \<and> is_allocated r)) \<Longrightarrow> bill_loop n rs = None"
  by (induction rs) auto

lemma bill_loop_first:
  "\<forall>x \<in> set pre. \<not> (room_number x = n \<and> is_allocated x) \<Longrightarrow> room_number r = n \<Longrightarrow>
   is_allocated r \<Longrightarrow>
   bill_loop n (pre @ r # post) =
     Some (customer_name r, pre @ r\<lparr>is_allocated := False, customer_name := ''''\<rparr> # post)"
  by (induction pre) auto

lemma allocate_loop_first:
  "\<forall>x \<in> set pre. room_number x \<noteq> n \<Longrightarrow> room_number r = n \<Longrightarrow>
   allocate_loop n c (pre @ r # post) =
     (if is_allocated r then (pre @ r # post, AlreadyAllocated)
      else (pre @ r\<lparr>is_allocated := True, customer_name := c\<rparr> # post, Allocated))"
  by (induction pre) auto

lemma join_separated: "join [c] xs = separated c xs"
  by (induction "[c]" xs rule: join.induct) simp_all

lemma room_line_spec_record: "room_line r = spec_record r"
  by (simp add: room_line_def spec_record_def str_bool_def LF_def join_separated)

lemma str_nat_0: "str_nat 0 = ''0''"
  by (subst str_nat.simps) simp

lemma join_items_strings: "join_items i (map PyStr fl) = Inr fl"
  by (induction fl arbitrary: i) simp_all

section \<open>Saving\<close>

text \<open>
  Claim C9. Calling \<^verbatim>\<open>save_data\<close> twice in a row, with no mutation between the calls,
  leaves the same file content both times: the second call leaves the file system as the
  first call left it, and the backing file holds the records of the rooms in memory.
\<close>

theorem save_data_twice_same_content:
  "files (save_data (save_data s)) = files (save_data s)
   \<and> files (save_data (save_data s)) file_name = Some (concat (map room_line (rooms s)))
   \<and> files (save_data s) file_name = Some (concat (map room_line (rooms s)))"
  by simp

section \<open>Deleting rooms\<close>

text \<open>
  Claim C7. \<^verbatim>\<open>delete_room\<close> removes every room with the given number, not only the
  first: the rooms left are the rooms with another number, all of them and in their
  former order; when no room has the number the rooms are unchanged.
\<close>

theorem delete_room_removes_every_match:
  "rooms (delete_room n s) = filter (\<lambda>r. room_number r \<noteq> n) (rooms s)
   \<and> (\<forall>r \<in> set (rooms (delete_room n s)). room_number r \<noteq> n)
   \<and> (\<forall>r \<in> set (rooms s). room_number r \<noteq> n \<longrightarrow> r \<in> set (rooms (delete_room n s)))
   \<and> subseq (rooms (delete_room n s)) (rooms s)
   \<and> ((\<forall>r \<in> set (rooms s). room_number r \<noteq> n) \<longrightarrow> rooms (delete_room n s) = rooms s)"
proof -
  have no_match: "(\<forall>r \<in> set (rooms s). room_number r \<noteq> n) \<longrightarrow>
      filter (\<lambda>r. room_number r \<noteq> n) (rooms s) = rooms s"
    by (simp add: filter_id_conv)
  show ?thesis
    using no_match by (simp add: delete_room_fields)
qed

theorem delete_room_removes_every_match_witness:
  "rooms (delete_room ''101'' (hotel [room_101, room_12A, alice_101])) = [room_12A]
   \<and> rooms (delete_room ''9'' (hotel [room_101, room_12A, alice_101]))
       = [room_101, room_12A, alice_101]"
  using delete_room_removes_every_match [of "''101''" "hotel [room_101, room_12A, alice_101]"]
    delete_room_removes_every_match [of "''9''" "hotel [room_101, room_12A, alice_101]"]
  by (simp add: example_defs)

text \<open>
  Claim C10. \<^verbatim>\<open>delete_room\<close> with a number that no room has still rewrites the backing
  file, from the unchanged rooms (the file then holds one record for each room in memory,
  in the format of the specification), and reports success, whereas
  \<^verbatim>\<open>bill_and_deallocate\<close> with such a number writes no file.
\<close>

theorem delete_room_writes_without_match:
  assumes "\<forall>r \<in> set (rooms s). room_number r \<noteq> n"
  shows "rooms (delete_room n s) = rooms s
    \<and> writes (delete_room n s) = Suc (writes s)
    \<and> files (delete_room n s) = (files s)(file_name \<mapsto> concat (map room_line (rooms s)))
    \<and> files (delete_room n s) file_name = Some (concat (map spec_record (rooms s)))
    \<and> printed (delete_room n s) = printed s @ [''Room '' @ n @ '' is successfully deleted.'']
    \<and> writes (bill_and_deallocate n s) = writes s
    \<and> files (bill_and_deallocate n s) = files s"
proof -
  have keep: "filter (\<lambda>r. room_number r \<noteq> n) (rooms s) = rooms s"
    using assms by (simp add: filter_id_conv)
  have "bill_loop n (rooms s) = None"
    using assms by (simp add: bill_loop_None)
  then have bill:
    "bill_and_deallocate n s = print (''Room '' @ n @ '' not found or not allocated.'') s"
    by (simp add: bill_and_deallocate_def)
  have lines: "map room_line (rooms s) = map spec_record (rooms s)"
    by (simp add: room_line_spec_record)
  show ?thesis
    by (simp add: delete_room_fields keep bill lines)
qed

theorem delete_room_writes_without_match_witness:
  "list_all (\<lambda>r. room_number r \<noteq> ''9'') (rooms ((hotel [room_101, alice_101])\<lparr>files := [file_name \<mapsto> '''']\<rparr>))
   \<and> files ((hotel [room_101, alice_101])\<lparr>files := [file_name \<mapsto> '''']\<rparr>) file_name = Some ''''
   \<and> writes (delete_room ''9'' ((hotel [room_101, alice_101])\<lparr>files := [file_name \<mapsto> '''']\<rparr>)) = 1
   \<and> rooms (delete_room ''9'' ((hotel [room_101, alice_101])\<lparr>files := [file_name \<mapsto> '''']\<rparr>))
       = [room_101, alice_101]
   \<and> files (delete_room ''9'' ((hotel [room_101, alice_101])\<lparr>files := [file_name \<mapsto> '''']\<rparr>)) file_name
       = Some (''101|wifi,ac|False|'' @ [CHR 0x0A] @ ''101|wifi,ac|True|Alice'' @ [CHR 0x0A])
   \<and> printed (delete_room ''9'' ((hotel [room_101, alice_101])\<lparr>files := [file_name \<mapsto> '''']\<rparr>))
       = [''Room 9 is successfully deleted.'']
   \<and> writes (bill_and_deallocate ''9'' ((hotel [room_101, alice_101])\<lparr>files := [file_name \<mapsto> '''']\<rparr>)) = 0
   \<and> files (bill_and_deallocate ''9'' ((hotel [room_101, alice_101])\<lparr>files := [file_name \<mapsto> '''']\<rparr>)) file_name
       = Some ''''"
proof -
  let ?s = "(hotel [room_101, alice_101])\<lparr>files := [file_name \<mapsto> '''']\<rparr>"
  have h: "\<forall>r \<in> set (rooms ?s). room_number r \<noteq> ''9''"
    by (simp add: example_defs)
  from delete_room_writes_without_match [OF h] h show ?thesis
    by (simp add: example_defs spec_record_def list_all_iff)
qed

section \<open>Adding rooms\<close>

text \<open>
  Claim C8, as stated: \<^verbatim>\<open>add_room\<close> with a list appends one room and persists, and an
  argument of the wrong type is reported before any mutation. It fails for a list that
  holds a value that is not a string: the list passes the check, the room is appended,
  and \<^verbatim>\<open>save_data\<close> then raises the \<^verbatim>\<open>TypeError\<close> in \<^verbatim>\<open>join\<close>. The room stays in memory, the
  file holds the records of the rooms before it only, and the error is printed in place
  of the success message.
\<close>

theorem add_room_keeps_unsaved_room:
  "unsaved (add_room ''102'' (PyList [PyInt 1, PyInt 2]) (hotel [room_101]))
     = Some (''102'', [PyInt 1, PyInt 2])
   \<and> rooms (store (add_room ''102'' (PyList [PyInt 1, PyInt 2]) (hotel [room_101]))) = [room_101]
   \<and> files (store (add_room ''102'' (PyList [PyInt 1, PyInt 2]) (hotel [room_101]))) file_name
       = Some (''101|wifi,ac|False|'' @ [CHR 0x0A])
   \<and> writes (store (add_room ''102'' (PyList [PyInt 1, PyInt 2]) (hotel [room_101]))) = 1
   \<and> printed (store (add_room ''102'' (PyList [PyInt 1, PyInt 2]) (hotel [room_101])))
       = [''TypeError caught: sequence item 0: expected str instance, int found'']"
  by (simp add: add_room_def str_nat_0 example_defs)

text \<open>
  Claim C8, amended: \<^verbatim>\<open>add_room\<close> with features that are not a list reports the type error
  and changes neither the rooms nor any file; with a list of strings it appends one room,
  unallocated and without customer, at the end and rewrites the backing file from the new
  rooms (one record for each, in the format of the specification, the new room's last),
  whatever numbers the rooms already have.
\<close>

theorem add_room_checks_type_only:
  "((\<forall>vs. v \<noteq> PyList vs) \<longrightarrow>
      unsaved (add_room n v s) = None
      \<and> rooms (store (add_room n v s)) = rooms s \<and> files (store (add_room n v s)) = files s
      \<and> writes (store (add_room n v s)) = writes s
      \<and> printed (store (add_room n v s))
          = printed s @ [''TypeError caught: Features should be a list.''])
   \<and> unsaved (add_room n (PyList (map PyStr fl)) s) = None
   \<and> rooms (store (add_room n (PyList (map PyStr fl)) s)) =
       rooms s @ [\<lparr>room_number = n, features = fl, is_allocated = False, customer_name = ''''\<rparr>]
   \<and> files (store (add_room n (PyList (map PyStr fl)) s)) =
       (files s)(file_name \<mapsto> concat (map room_line (rooms s @
          [\<lparr>room_number = n, features = fl, is_allocated = False, customer_name = ''''\<rparr>])))
   \<and> files (store (add_room n (PyList (map PyStr fl)) s)) file_name =
       Some (concat (map spec_record (rooms s))
             @ n @ ''|'' @ separated (CHR '','') fl @ ''|False|'' @ [CHR 0x0A])
   \<and> writes (store (add_room n (PyList (map PyStr fl)) s)) = Suc (writes s)
   \<and> printed (store (add_room n (PyList (map PyStr fl)) s))
       = printed s @ [''Room '' @ n @ '' is successfully added.'']"
proof -
  have lines: "map room_line (rooms s) = map spec_record (rooms s)"
    by (simp add: room_line_spec_record)
  have new: "room_line \<lparr>room_number = n, features = fl, is_allocated = False, customer_name = ''''\<rparr>
      = n @ ''|'' @ separated (CHR '','') fl @ ''|False|'' @ [CHR 0x0A]"
    by (simp add: room_line_def str_bool_def LF_def join_separated)
  show ?thesis
    by (cases v) (simp_all add: add_room_def Room_def join_items_strings lines new)
qed

theorem add_room_checks_type_only_witness:
  "unsaved (add_room ''101'' (PyStr ''wifi'') (hotel [alice_101])) = None
   \<and> rooms (store (add_room ''101'' (PyStr ''wifi'') (hotel [alice_101]))) = [alice_101]
   \<and> files (store (add_room ''101'' (PyStr ''wifi'') (hotel [alice_101]))) file_name
       = Some (''101|wifi,ac|True|Alice'' @ [CHR 0x0A])
   \<and> writes (store (add_room ''101'' (PyStr ''wifi'') (hotel [alice_101]))) = 0
   \<and> printed (store (add_room ''101'' (PyStr ''wifi'') (hotel [alice_101])))
       = [''TypeError caught: Features should be a list.'']
   \<and> unsaved (add_room ''101'' (PyList [PyStr ''tv'', PyStr ''sea view'']) (hotel [alice_101])) = None
   \<and> rooms (store (add_room ''101'' (PyList [PyStr ''tv'', PyStr ''sea view'']) (hotel [alice_101])))
       = [alice_101, Room ''101'' [''tv'', ''sea view'']]
   \<and> files (store (add_room ''101'' (PyList [PyStr ''tv'', PyStr ''sea view'']) (hotel [alice_101])))
        file_name
       = Some (''101|wifi,ac|True|Alice'' @ [CHR 0x0A] @ ''101|tv,sea view|False|'' @ [CHR 0x0A])
   \<and> printed (store (add_room ''101'' (PyList [PyStr ''tv'', PyStr ''sea view'']) (hotel [alice_101])))
       = [''Room 101 is successfully added.'']"
  using add_room_checks_type_only
    [of "PyStr ''wifi''" "''101''" "hotel [alice_101]" "[''tv'', ''sea view'']"]
  by (simp add: example_defs spec_record_def)

section \<open>Allocating and deallocating\<close>

text \<open>
  Claim C5. When the first room with the number is already allocated, \<^verbatim>\<open>allocate_room\<close>
  reports the conflict and changes neither the rooms nor any file, whoever occupies the
  room. In every case the rooms before and after the first room with the number are
  left as they are, also those with the same number.
\<close>

theorem allocate_room_first_match_only:
  assumes "rooms s = pre @ r # post" and "\<forall>x \<in> set pre. room_number x \<noteq> n"
    and "room_number r = n"
  shows "(is_allocated r \<longrightarrow>
            rooms (allocate_room n c s) = rooms s \<and> files (allocate_room n c s) = files s
            \<and> writes (allocate_room n c s) = writes s
            \<and> printed (allocate_room n c s) = printed s @ [''Room '' @ n @ '' is already allocated.''])
    \<and> rooms (allocate_room n c s) =
         pre @ (if is_allocated r then r else r\<lparr>is_allocated := True, customer_name := c\<rparr>) # post"
  using assms by (simp add: allocate_room_def allocate_loop_first)

theorem allocate_room_first_match_only_witness:
  "rooms (allocate_room ''101'' ''Bob'' (hotel [room_12A, alice_101, room_101]))
     = [room_12A, alice_101, room_101]
   \<and> files (allocate_room ''101'' ''Bob'' (hotel [room_12A, alice_101, room_101]))
     = files (hotel [room_12A, alice_101, room_101])
   \<and> writes (allocate_room ''101'' ''Bob'' (hotel [room_12A, alice_101, room_101])) = 0
   \<and> printed (allocate_room ''101'' ''Bob'' (hotel [room_12A, alice_101, room_101]))
     = [''Room 101 is already allocated.'']"
proof -
  have h1: "rooms (hotel [room_12A, alice_101, room_101]) = [room_12A] @ alice_101 # [room_101]"
    by (simp add: hotel_def)
  have h2: "\<forall>x \<in> set [room_12A]. room_number x \<noteq> ''101''"
    by (simp add: example_defs)
  have h3: "room_number alice_101 = ''101''"
    by (simp add: example_defs)
  have "is_allocated alice_101"
    by (simp add: example_defs)
  with allocate_room_first_match_only [OF h1 h2 h3, of "''Bob''"] show ?thesis
    by (simp add: hotel_def)
qed

text \<open>
  Claim C6. When no room has the number and is allocated, \<^verbatim>\<open>bill_and_deallocate\<close>
  reports that the room is not found or not allocated, leaves the rooms unchanged and
  writes no file. Otherwise it frees the first such room only, clearing its customer
  name, and rewrites the backing file from the new rooms: the file then holds one record
  for each room, in the format of the specification.
\<close>

theorem bill_and_deallocate_outcomes:
  "((\<forall>x \<in> set (rooms s). \<not> (room_number x = n \<and> is_allocated x)) \<longrightarrow>
      rooms (bill_and_deallocate n s) = rooms s \<and> files (bill_and_deallocate n s) = files s
      \<and> writes (bill_and_deallocate n s) = writes s
      \<and> printed (bill_and_deallocate n s)
          = printed s @ [''Room '' @ n @ '' not found or not allocated.''])
   \<and> (rooms s = pre @ r # post \<and> (\<forall>x \<in> set pre. \<not> (room_number x = n \<and> is_allocated x))
        \<and> room_number r = n \<and> is_allocated r \<longrightarrow>
      rooms (bill_and_deallocate n s)
        = pre @ r\<lparr>is_allocated := False, customer_name := ''''\<rparr> # post
      \<and> files (bill_and_deallocate n s) =
          (files s)(file_name \<mapsto>
             concat (map room_line (pre @ r\<lparr>is_allocated := False, customer_name := ''''\<rparr> # post)))
      \<and> files (bill_and_deallocate n s) file_name =
          Some (concat (map spec_record pre)
                @ n @ ''|'' @ separated (CHR '','') (features r) @ ''|False|'' @ [CHR 0x0A]
                @ concat (map spec_record post))
      \<and> writes (bill_and_deallocate n s) = Suc (writes s)
      \<and> printed (bill_and_deallocate n s)
          = printed s @ [''Billing customer '' @ customer_name r @ '' for Room '' @ n @ ''.'',
                         ''Room '' @ n @ '' is de-allocated for the customer.''])"
proof -
  have freed: "room_number r = n \<longrightarrow>
      room_line (r\<lparr>is_allocated := False, customer_name := ''''\<rparr>)
        = n @ ''|'' @ separated (CHR '','') (features r) @ ''|False|'' @ [CHR 0x0A]"
    by (simp add: room_line_def str_bool_def LF_def join_separated)
  have lines: "map room_line pre = map spec_record pre" "map room_line post = map spec_record post"
    by (simp_all add: room_line_spec_record)
  show ?thesis
    using freed
    by (simp add: bill_and_deallocate_def bill_loop_None bill_loop_first lines)
qed

theorem bill_and_deallocate_outcomes_witness:
  "rooms (bill_and_deallocate ''9'' (hotel [Room ''9'' [''tv'']])) = [Room ''9'' [''tv'']]
   \<and> writes (bill_and_deallocate ''9'' (hotel [Room ''9'' [''tv'']])) = 0
   \<and> files (bill_and_deallocate ''9'' (hotel [Room ''9'' [''tv'']])) file_name
       = Some (''9|tv|False|'' @ [CHR 0x0A])
   \<and> printed (bill_and_deallocate ''9'' (hotel [Room ''9'' [''tv'']]))
       = [''Room 9 not found or not allocated.'']
   \<and> rooms (bill_and_deallocate ''101'' (hotel [room_101, alice_101, alice_101]))
       = [room_101, room_101, alice_101]
   \<and> files (bill_and_deallocate ''101'' (hotel [room_101, alice_101, alice_101])) file_name
       = Some (''101|wifi,ac|False|'' @ [CHR 0x0A] @ ''101|wifi,ac|False|'' @ [CHR 0x0A]
               @ ''101|wifi,ac|True|Alice'' @ [CHR 0x0A])
   \<and> writes (bill_and_deallocate ''101'' (hotel [room_101, alice_101, alice_101])) = 1
   \<and> printed (bill_and_deallocate ''101'' (hotel [room_101, alice_101, alice_101]))
       = [''Billing customer Alice for Room 101.'', ''Room 101 is de-allocated for the customer.'']"
  using bill_and_deallocate_outcomes [of "hotel [Room ''9'' [''tv'']]" "''9''" "[]" "Room ''9'' [''tv'']" "[]"]
    bill_and_deallocate_outcomes
      [of "hotel [room_101, alice_101, alice_101]" "''101''" "[room_101]" alice_101 "[alice_101]"]
  by (simp add: example_defs spec_record_def)

section \<open>The room invariant\<close>

lemma allocate_loop_invariant:
  "list_all room_invariant rs \<Longrightarrow> name \<noteq> '''' \<Longrightarrow>
   list_all room_invariant (fst (allocate_loop n name rs))"
  by (induction rs) (auto simp: room_invariant_def split: prod.splits)

lemma bill_loop_invariant:
  "list_all room_invariant rs \<Longrightarrow> bill_loop n rs = Some (c, rs') \<Longrightarrow>
   list_all room_invariant rs'"
  by (induction rs arbitrary: rs') (auto simp: room_invariant_def split: if_splits option.splits)

lemma allocate_room_invariant:
  assumes "list_all room_invariant (rooms s)" and "name \<noteq> ''''"
  shows "list_all room_invariant (rooms (allocate_room n name s))"
proof (cases "allocate_loop n name (rooms s)")
  case (Pair rs res)
  then have "list_all room_invariant rs"
    using allocate_loop_invariant [OF assms, of n] by simp
  with Pair assms(1) show ?thesis
    by (cases res) (simp_all add: allocate_room_def)
qed

lemma bill_and_deallocate_invariant:
  assumes "list_all room_invariant (rooms s)"
  shows "list_all room_invariant (rooms (bill_and_deallocate n s))"
proof (cases "bill_loop n (rooms s)")
  case None
  with assms show ?thesis by (simp add: bill_and_deallocate_def)
next
  case (Some p)
  obtain c rs where p: "p = (c, rs)" by (cases p)
  with Some assms have "list_all room_invariant rs"
    using bill_loop_invariant by blast
  with Some p show ?thesis by (simp add: bill_and_deallocate_def)
qed

text \<open>
  Claim C3, as stated: after any calls of \<^verbatim>\<open>allocate_room\<close> and \<^verbatim>\<open>bill_and_deallocate\<close>,
  with any strings, on any store, an allocated room has a customer name and a free room
  has none. It fails: \<^verbatim>\<open>allocate_room\<close> takes the empty name and allocates the room to it,
  and a store whose rooms break the invariant at the start (rooms are loaded without
  validation) keeps such a room.
\<close>

theorem invariant_broken_by_empty_name:
  "list_all room_invariant (rooms (hotel [room_101]))
   \<and> rooms (run_calls [AllocateRoom ''101'' ''''] (hotel [room_101]))
       = [room_101\<lparr>is_allocated := True, customer_name := ''''\<rparr>]
   \<and> \<not> list_all room_invariant (rooms (run_calls [AllocateRoom ''101'' ''''] (hotel [room_101])))
   \<and> \<not> list_all room_invariant
         (rooms (run_calls [AllocateRoom ''12A'' ''Eve'']
            (hotel [room_101\<lparr>customer_name := ''Bob''\<rparr>, room_12A])))"
  by (simp add: example_defs room_invariant_def allocate_room_def)

text \<open>
  Claim C3, amended: on a store whose rooms all satisfy the invariant, after any calls
  of \<^verbatim>\<open>allocate_room\<close> with a non-empty customer name and of \<^verbatim>\<open>bill_and_deallocate\<close>, every
  room satisfies the invariant.
\<close>

theorem invariant_kept_by_named_calls:
  assumes "list_all room_invariant (rooms s)" and "list_all names_customer calls"
  shows "list_all room_invariant (rooms (run_calls calls s))"
  using assms
proof (induction calls arbitrary: s)
  case Nil
  then show ?case by simp
next
  case (Cons c calls)
  have "list_all room_invariant (rooms (run_call c s))"
  proof (cases c)
    case (AllocateRoom number name)
    with Cons.prems show ?thesis by (simp add: allocate_room_invariant)
  next
    case (BillAndDeallocate number)
    with Cons.prems show ?thesis by (simp add: bill_and_deallocate_invariant)
  qed
  with Cons show ?case by simp
qed

theorem invariant_kept_by_named_calls_witness:
  "list_all room_invariant (rooms (hotel [room_101, room_12A]))
   \<and> list_all names_customer
       [AllocateRoom ''101'' ''Alice'', AllocateRoom ''101'' ''Bob'', BillAndDeallocate ''12A'',
        AllocateRoom ''12A'' ''Eve'', BillAndDeallocate ''101'']
   \<and> list_all room_invariant
       (rooms (run_calls
          [AllocateRoom ''101'' ''Alice'', AllocateRoom ''101'' ''Bob'', BillAndDeallocate ''12A'',
           AllocateRoom ''12A'' ''Eve'', BillAndDeallocate ''101'']
          (hotel [room_101, room_12A])))"
proof -
  have h1: "list_all room_invariant (rooms (hotel [room_101, room_12A]))"
    by (simp add: example_defs room_invariant_def)
  have h2: "list_all names_customer
       [AllocateRoom ''101'' ''Alice'', AllocateRoom ''101'' ''Bob'', BillAndDeallocate ''12A'',
        AllocateRoom ''12A'' ''Eve'', BillAndDeallocate ''101'']"
    by simp
  from invariant_kept_by_named_calls [OF h1 h2] h1 h2 show ?thesis
    by blast
qed

section \<open>Backup\<close>


lemma universal_newlines_no_CR:
  "CR \<notin> set content \<Longrightarrow> universal_newlines content = content"
  by (induction content rule: universal_newlines.induct) auto







section \<open>Loading\<close>

lemma parse_line_None_iff: "parse_line l = None \<longleftrightarrow> num_fields l < 4"
  by (auto simp: parse_line_def num_fields_def split: list.splits)

lemma load_lines_stops:
  "\<forall>l \<in> set pre. parse_line l \<noteq> None \<Longrightarrow> parse_line bad = None \<Longrightarrow>
   load_lines acc (pre @ bad # post) = (acc @ map (the \<circ> parse_line) pre, True)"
  by (induction pre arbitrary: acc) auto

text \<open>
  Claim C4. When the backing file has a line with fewer than four fields, and the lines
  before it have four or more, \<^verbatim>\<open>load_data\<close> appends the rooms of the lines before it, in
  order, and nothing else: the malformed line and the lines after it add no room. The
  \<^verbatim>\<open>IndexError\<close> is printed and \<^verbatim>\<open>load_data\<close> returns; no file changes.
\<close>

theorem load_data_stops_at_malformed_line:
  assumes "files s file_name = Some content"
    and "readlines (universal_newlines content) = pre @ bad # post"
    and "\<forall>l \<in> set pre. 4 \<le> num_fields l"
    and "num_fields bad < 4"
  shows "rooms (load_data s) = rooms s @ map (the \<circ> parse_line) pre
    \<and> length (rooms (load_data s)) = length (rooms s) + length pre
    \<and> printed (load_data s) = printed s @ [''IndexError caught: list index out of range'']
    \<and> files (load_data s) = files s"
proof -
  have "\<forall>l \<in> set pre. parse_line l \<noteq> None"
    using assms(3) by (simp add: parse_line_None_iff not_less)
  moreover have "parse_line bad = None"
    using assms(4) by (simp add: parse_line_None_iff)
  ultimately have "load_lines (rooms s) (pre @ bad # post)
      = (rooms s @ map (the \<circ> parse_line) pre, True)"
    by (rule load_lines_stops)
  then show ?thesis
    using assms(1,2) by (simp add: load_data_def)
qed

theorem load_data_stops_at_malformed_line_witness:
  "readlines (universal_newlines broken_file)
     = [''101|wifi|False|'' @ [LF]] @ (''102'' @ [LF]) # [''103|tv|True|Bob'' @ [LF]]
   \<and> num_fields (''101|wifi|False|'' @ [LF]) = 4
   \<and> num_fields (''102'' @ [LF]) = 1
   \<and> rooms (load_data \<lparr>rooms = [], files = [file_name \<mapsto> broken_file], writes = 0, printed = []\<rparr>)
       = [Room ''101'' [''wifi'']]
   \<and> printed (load_data \<lparr>rooms = [], files = [file_name \<mapsto> broken_file], writes = 0, printed = []\<rparr>)
       = [''IndexError caught: list index out of range'']"
proof -
  let ?s = "\<lparr>rooms = [], files = [file_name \<mapsto> broken_file], writes = 0, printed = []\<rparr>"
  have h1: "files ?s file_name = Some broken_file"
    by simp
  have h2: "readlines (universal_newlines broken_file)
     = [''101|wifi|False|'' @ [LF]] @ (''102'' @ [LF]) # [''103|tv|True|Bob'' @ [LF]]"
    by (simp add: broken_file_def readlines_def LF_def CR_def)
  have n1: "num_fields (''101|wifi|False|'' @ [LF]) = 4"
    by (simp add: num_fields_def strip_def is_space_def LF_def)
  have n2: "num_fields (''102'' @ [LF]) = 1"
    by (simp add: num_fields_def strip_def is_space_def LF_def)
  have h3: "\<forall>l \<in> set [''101|wifi|False|'' @ [LF]]. 4 \<le> num_fields l"
    using n1 by simp
  have h4: "num_fields (''102'' @ [LF]) < 4"
    using n2 by simp
  have p: "parse_line (''101|wifi|False|'' @ [LF]) = Some (Room ''101'' [''wifi''])"
    by (simp add: parse_line_def strip_def is_space_def LF_def Room_def)
  from load_data_stops_at_malformed_line [OF h1 h2 h3 h4] h2 n1 n2 p show ?thesis
    by simp
qed

section \<open>Saving and loading again\<close>

lemma split_py_no_sep: "sep \<notin> set x \<Longrightarrow> split_py sep x = [x]"
  by (induction x) auto

lemma split_py_append:
  "sep \<notin> set x \<Longrightarrow> split_py sep (x @ sep # rest) = x # split_py sep rest"
  by (induction x) auto

lemma split_py_join:
  "xs \<noteq> [] \<Longrightarrow> \<forall>x \<in> set xs. sep \<notin> set x \<Longrightarrow> split_py sep (join [sep] xs) = xs"
  by (induction "[sep]" xs rule: join.induct) (simp_all add: split_py_no_sep split_py_append)

lemma set_join:
  "c \<notin> set sep \<Longrightarrow> \<forall>x \<in> set xs. c \<notin> set x \<Longrightarrow> c \<notin> set (join sep xs)"
  by (induction sep xs rule: join.induct) simp_all

lemma dropWhile_keep: "no_space_at_start x \<Longrightarrow> x \<noteq> [] \<Longrightarrow> dropWhile is_space x = x"
  by (cases x) (simp_all add: no_space_at_start_def)

lemma strip_line:
  assumes "body \<noteq> []" and "no_space_at_start body" and "no_space_at_start (rev body)"
  shows "strip (body @ [LF]) = body"
proof -
  have "no_space_at_start (body @ [LF])"
    using assms(1,2) by (cases body) (simp_all add: no_space_at_start_def)
  then have "dropWhile is_space (body @ [LF]) = body @ [LF]"
    by (simp add: dropWhile_keep)
  moreover have "is_space LF"
    by (simp add: is_space_def LF_def)
  moreover have "dropWhile is_space (rev body) = rev body"
    using assms(1,3) by (simp add: dropWhile_keep)
  ultimately show ?thesis
    by (simp add: strip_def)
qed

lemma readlines_from_line:
  "LF \<notin> set x \<Longrightarrow> readlines_from cur (x @ LF # rest) = (cur @ x @ [LF]) # readlines_from [] rest"
  by (induction x arbitrary: cur) auto

lemma room_line_split:
  "room_line r = (room_number r @ ''|'' @ join '','' (features r) @ ''|''
      @ str_bool (is_allocated r) @ ''|'' @ customer_name r) @ LF # []"
  by (simp add: room_line_def)

lemma reloadable_no_LF:
  assumes "reloadable r"
  shows "LF \<notin> set (room_number r @ ''|'' @ join '','' (features r) @ ''|''
      @ str_bool (is_allocated r) @ ''|'' @ customer_name r)"
proof -
  have "LF \<notin> set (join '','' (features r))"
    using assms
    by (intro set_join) (simp_all add: reloadable_def no_line_break_def LF_def list_all_iff)
  moreover have "LF \<notin> set (str_bool (is_allocated r))"
    by (simp add: str_bool_def LF_def)
  ultimately show ?thesis
    using assms by (simp add: reloadable_def no_line_break_def LF_def)
qed

lemma reloadable_no_CR:
  assumes "reloadable r"
  shows "CR \<notin> set (room_line r)"
proof -
  have "CR \<notin> set (join '','' (features r))"
    using assms
    by (intro set_join) (simp_all add: reloadable_def no_line_break_def CR_def list_all_iff)
  moreover have "CR \<notin> set (str_bool (is_allocated r))"
    by (simp add: str_bool_def CR_def)
  ultimately show ?thesis
    using assms by (simp add: room_line_def reloadable_def no_line_break_def LF_def CR_def)
qed

lemma readlines_room_lines:
  "list_all reloadable rs \<Longrightarrow> readlines_from [] (concat (map room_line rs)) = map room_line rs"
proof (induction rs)
  case Nil
  then show ?case by simp
next
  case (Cons r rs)
  then have "reloadable r" by simp
  then obtain body where line: "room_line r = body @ LF # []" and body: "LF \<notin> set body"
    using reloadable_no_LF room_line_split by blast
  have "readlines_from [] (body @ LF # concat (map room_line rs))
      = ([] @ body @ [LF]) # readlines_from [] (concat (map room_line rs))"
    using body by (rule readlines_from_line)
  with Cons show ?case
    by (simp add: line)
qed

lemma strip_room_line:
  assumes "reloadable r"
  shows "strip (room_line r) = room_number r @ ''|'' @ join '','' (features r) @ ''|''
      @ str_bool (is_allocated r) @ ''|'' @ customer_name r"
proof -
  let ?body = "room_number r @ ''|'' @ join '','' (features r) @ ''|''
      @ str_bool (is_allocated r) @ ''|'' @ customer_name r"
  have "?body \<noteq> []" by simp
  moreover have "no_space_at_start ?body"
    using assms
    by (cases "room_number r") (simp_all add: reloadable_def no_space_at_start_def is_space_def)
  moreover have "no_space_at_start (rev ?body)"
    using assms
    by (cases "rev (customer_name r)")
      (simp_all add: reloadable_def no_space_at_start_def is_space_def)
  ultimately have "strip (?body @ [LF]) = ?body"
    by (rule strip_line)
  then show ?thesis
    by (simp add: room_line_def)
qed

lemma split_room_line:
  assumes "reloadable r"
  shows "split_py (CHR ''|'') (strip (room_line r)) =
     [room_number r, join '','' (features r), str_bool (is_allocated r), customer_name r]"
proof -
  have 1: "CHR ''|'' \<notin> set (room_number r)" and 4: "CHR ''|'' \<notin> set (customer_name r)"
    using assms by (simp_all add: reloadable_def fields_no_delimiters_def no_delimiters_def)
  have 2: "CHR ''|'' \<notin> set (join '','' (features r))"
    using assms
    by (intro set_join)
      (simp_all add: reloadable_def fields_no_delimiters_def no_delimiters_def list_all_iff)
  have 3: "CHR ''|'' \<notin> set (str_bool (is_allocated r))"
    by (simp add: str_bool_def)
  show ?thesis
    by (simp add: strip_room_line [OF assms] split_py_append 1 2 3 split_py_no_sep [OF 4])
qed

lemma parse_room_line:
  assumes "reloadable r"
  shows "parse_line (room_line r) = Some r"
proof -
  have "split_py (CHR '','') (join '','' (features r)) = features r"
    using assms
    by (intro split_py_join)
      (simp_all add: reloadable_def fields_no_delimiters_def no_delimiters_def list_all_iff)
  moreover have "(str_bool (is_allocated r) = ''True'') = is_allocated r"
    by (simp add: str_bool_def)
  ultimately show ?thesis
    by (simp add: parse_line_def split_room_line [OF assms] Room_def)
qed

lemma load_room_lines:
  "list_all reloadable rs \<Longrightarrow> load_lines acc (map room_line rs) = (acc @ rs, False)"
  by (induction rs arbitrary: acc) (simp_all add: parse_room_line)

lemma universal_newlines_room_lines:
  assumes "list_all reloadable rs"
  shows "universal_newlines (concat (map room_line rs)) = concat (map room_line rs)"
proof (rule universal_newlines_no_CR)
  show "CR \<notin> set (concat (map room_line rs))"
    using assms by (auto simp: list_all_iff reloadable_no_CR)
qed

text \<open>
  Claim C1, as stated: for rooms whose room numbers, features and customer names hold no
  \<^verbatim>\<open>|\<close> and no \<^verbatim>\<open>,\<close>, saving and then loading into a fresh store gives the rooms back. It
  fails in three ways. A room with no feature is saved with an empty second field, which
  is loaded as the one feature \<^verbatim>\<open>""\<close>. \<^verbatim>\<open>strip\<close> removes the whitespace at the end of the
  line, hence of the customer name (and at the start of the room number). A line break
  in a field ends the line: the rest of the record is read as a line of its own, here a
  malformed one.
\<close>

theorem save_then_load_changes_rooms:
  "fields_no_delimiters (Room ''1'' [])
   \<and> rooms (load_data ((save_data (hotel [Room ''1'' []]))\<lparr>rooms := []\<rparr>)) = [Room ''1'' ['''']]
   \<and> rooms (load_data ((save_data (hotel [Room ''1'' []]))\<lparr>rooms := []\<rparr>))
       \<noteq> rooms (hotel [Room ''1'' []])
   \<and> fields_no_delimiters ((Room ''2'' [''tv''])\<lparr>is_allocated := True, customer_name := ''Bob ''\<rparr>)
   \<and> rooms (load_data ((save_data (hotel
        [(Room ''2'' [''tv''])\<lparr>is_allocated := True, customer_name := ''Bob ''\<rparr>]))\<lparr>rooms := []\<rparr>))
       = [(Room ''2'' [''tv''])\<lparr>is_allocated := True, customer_name := ''Bob''\<rparr>]
   \<and> fields_no_delimiters
        ((Room ''3'' [''tv''])\<lparr>is_allocated := True, customer_name := [CHR ''A'', CR, CHR ''B'']\<rparr>)
   \<and> rooms (load_data ((save_data (hotel
        [(Room ''3'' [''tv''])\<lparr>is_allocated := True, customer_name := [CHR ''A'', CR, CHR ''B'']\<rparr>]))
          \<lparr>rooms := []\<rparr>))
       = [(Room ''3'' [''tv''])\<lparr>is_allocated := True, customer_name := ''A''\<rparr>]"
  by (simp add: example_defs fields_no_delimiters_def no_delimiters_def load_data_def print_def
      save_data_def write_file_def readlines_def parse_line_def strip_def is_space_def)

text \<open>
  Claim C1, amended: for rooms whose room numbers, features and customer names hold no
  \<^verbatim>\<open>|\<close>, no \<^verbatim>\<open>,\<close> and no line break, that have at least one feature, whose room number does
  not start and whose customer name does not end with whitespace, \<^verbatim>\<open>save_data\<close> and then
  \<^verbatim>\<open>load_data\<close> on a fresh store (one with no rooms, or a newly constructed one) gives
  rooms equal to the original ones in all four fields, and reports no error.
\<close>

theorem save_then_load_round_trip:
  assumes "list_all reloadable (rooms s)"
  shows "rooms (load_data ((save_data s)\<lparr>rooms := []\<rparr>)) = rooms s
    \<and> printed (load_data ((save_data s)\<lparr>rooms := []\<rparr>)) = printed s
    \<and> rooms (hms_init (files (save_data s))) = rooms s
    \<and> printed (hms_init (files (save_data s))) = []"
  using assms
  by (simp add: load_data_def hms_init_def ensure_file_exists_def readlines_def
      universal_newlines_room_lines readlines_room_lines load_room_lines)

theorem save_then_load_round_trip_witness:
  "list_all reloadable (rooms (hotel [alice_101, room_12A]))
   \<and> rooms (load_data ((save_data (hotel [alice_101, room_12A]))\<lparr>rooms := []\<rparr>))
       = [alice_101, room_12A]
   \<and> rooms (hms_init (files (save_data (hotel [alice_101, room_12A])))) = [alice_101, room_12A]"
proof -
  have h: "list_all reloadable (rooms (hotel [alice_101, room_12A]))"
    by (simp add: example_defs reloadable_def fields_no_delimiters_def no_delimiters_def
        no_line_break_def no_space_at_start_def is_space_def)
  from save_then_load_round_trip [OF h] h show ?thesis
    by (simp add: hotel_def)
qed


end
